theory Spec2Isabelle
  imports Complex_Main
begin

section \<open>Strategy trades of the siis trading engine\<close>

text \<open>
  A shallow embedding of \<^verbatim>\<open>strategy/strategytrade.py\<close> (class StrategyTrade),
  \<^verbatim>\<open>strategy/strategyindmargintrade.py\<close> (class StrategyIndMarginTrade) and of the entry
  filter of \<^verbatim>\<open>strategy/cryptoalpha/castrategytrader.py\<close>.

  Conventions.
  \<^item> Prices, quantities and timestamps are Python numbers; they are modelled as exact
    reals. The rounding of floats is outside the model: the properties below are about
    which assignments are made, which exception is raised and when a divisor is zero,
    and where an example names a profit/loss (\<open>- 28 / 100\<close>, \<open>1 / 10\<close>) the source holds the
    float nearest to it. No property equates two computed quotients.
  \<^item> A trade object is a record; a method that mutates the object takes the record and
    returns the updated one.
  \<^item> A method that can raise returns a sum: \<open>Inl (err, t)\<close> is the exception \<open>err\<close>
    raised with the object left in state \<open>t\<close> (Python keeps the assignments made before
    the raise), \<open>Inr (v, t)\<close> is the value \<open>v\<close> returned with the object in state \<open>t\<close>.
\<close>

subsection \<open>Python values\<close>

text \<open>
  The exceptions the modelled code can raise. \<open>NotModelled\<close> is no Python exception: it
  marks the one place where the typed record cannot follow the source, which would store
  an order id in a slot of another type (see \<open>setattr_oid\<close>).
\<close>

datatype error = ZeroDivisionError | AttributeError | TypeError | IndexError | NotModelled

type_synonym oid = string

text \<open>Truth value of an order id (\<^verbatim>\<open>if self.limit_oid:\<close>): None and the empty string are false.\<close>

definition truthy_oid :: "oid option \<Rightarrow> bool" where
  "truthy_oid v = (case v of None \<Rightarrow> False | Some s \<Rightarrow> s \<noteq> [])"

text \<open>Truth value of a number or None (\<^verbatim>\<open>if data.get('stop-loss'):\<close>): None and zero are false.\<close>

definition truthy_num :: "real option \<Rightarrow> bool" where
  "truthy_num v = (case v of None \<Rightarrow> False | Some r \<Rightarrow> r \<noteq> 0)"

text \<open>\<^verbatim>\<open>v is not None and v > 0\<close>, giving the value when the test holds.\<close>

definition pos_val :: "real option \<Rightarrow> real option" where
  "pos_val v = (case v of None \<Rightarrow> None | Some r \<Rightarrow> if r > 0 then Some r else None)"

text \<open>True division \<^verbatim>\<open>a / b\<close>: a zero divisor raises.\<close>

definition py_div :: "real \<Rightarrow> real \<Rightarrow> error + real" where
  "py_div a b = (if b = 0 then Inl ZeroDivisionError else Inr (a / b))"

subsection \<open>The trade object\<close>

datatype trade_state =
    STATE_UNDEFINED
  | STATE_NEW
  | STATE_REJECTED
  | STATE_DELETED
  | STATE_CANCELED
  | STATE_OPENED
  | STATE_PARTIALLY_FILLED
  | STATE_FILLED

text \<open>
  The attribute \<^verbatim>\<open>_trade_type\<close> holds an integer code after \<^verbatim>\<open>__init__\<close>, and whatever
  the dictionary's \<^verbatim>\<open>'type'\<close> entry holds after \<^verbatim>\<open>loads\<close>.
\<close>

datatype trade_type = TypeCode int | TypeName string

definition TRADE_UNDEFINED :: trade_type where "TRADE_UNDEFINED = TypeCode (- 1)"
definition TRADE_ASSET :: trade_type where "TRADE_ASSET = TypeCode 0"
definition TRADE_MARGIN :: trade_type where "TRADE_MARGIN = TypeCode 1"
definition TRADE_IND_MARGIN :: trade_type where "TRADE_IND_MARGIN = TypeCode 2"

record stats =
  best_price :: real
  best_timestamp :: real
  worst_price :: real
  worst_timestamp :: real
  entry_maker :: bool
  exit_maker :: bool
  entry_fees :: real
  exit_fees :: real
  conditions :: "(string \<times> string) list"

text \<open>
  The slots of StrategyTrade followed by those of StrategyIndMarginTrade. The fields
  \<open>e\<close>, \<open>x\<close> and \<open>id\<close> of the source are named \<open>e_qty\<close>, \<open>x_qty\<close> and \<open>trade_id\<close>.
  The ordered price \<open>op\<close> is a number, the limit price of the entry order
  (\<^verbatim>\<open>self.op = 0.0  # ordered price (limit)\<close>); a trade opened at market, whose \<open>op\<close> the
  source leaves None, is not a value of this record.
\<close>

record trade =
  trade_type :: trade_type
  entry_state :: trade_state
  exit_state :: trade_state
  timeframe :: real
  operations :: "int list"
  user_trade :: bool
  next_operation_id :: int
  trade_id :: int
  dir :: int
  op :: real
  oq :: real
  tp :: "real option"
  sl :: "real option"
  aep :: real
  axp :: real
  eot :: real
  xot :: real
  e_qty :: real
  x_qty :: real
  pl :: real
  ptp :: real
  stats :: stats
  create_ref_oid :: "oid option"
  stop_ref_oid :: "oid option"
  limit_ref_oid :: "oid option"
  create_oid :: "oid option"
  stop_oid :: "oid option"
  limit_oid :: "oid option"
  position_id :: "oid option"
  stop_order_qty :: real
  limit_order_qty :: real

type_synonym 'a result = "(error \<times> trade) + ('a \<times> trade)"

text \<open>The state of the object once the call is over, whether it returned or raised.\<close>

definition state_after :: "'a result \<Rightarrow> trade" where
  "state_after r = (case r of Inl (err, t) \<Rightarrow> t | Inr (v, t) \<Rightarrow> t)"

definition raised :: "'a result \<Rightarrow> error option" where
  "raised r = (case r of Inl (err, t) \<Rightarrow> Some err | Inr (v, t) \<Rightarrow> None)"

definition init_stats :: stats where
  "init_stats = \<lparr> best_price = 0, best_timestamp = 0, worst_price = 0, worst_timestamp = 0,
     entry_maker = False, exit_maker = False, entry_fees = 0, exit_fees = 0, conditions = [] \<rparr>"

text \<open>\<^verbatim>\<open>StrategyIndMarginTrade.__init__(timeframe)\<close>, through \<^verbatim>\<open>StrategyTrade.__init__\<close>.\<close>

definition init_trade :: "trade_type \<Rightarrow> real \<Rightarrow> trade" where
  "init_trade ty tf = \<lparr> trade_type = ty, entry_state = STATE_NEW, exit_state = STATE_NEW,
     timeframe = tf, operations = [], user_trade = False, next_operation_id = 1,
     trade_id = 0, dir = 0, op = 0, oq = 0, tp = Some 0, sl = Some 0, aep = 0, axp = 0,
     eot = 0, xot = 0, e_qty = 0, x_qty = 0, pl = 0, ptp = 1, stats = init_stats,
     create_ref_oid = None, stop_ref_oid = None, limit_ref_oid = None,
     create_oid = None, stop_oid = None, limit_oid = None, position_id = None,
     stop_order_qty = 0, limit_order_qty = 0 \<rparr>"

definition init_ind_margin_trade :: "real \<Rightarrow> trade" where
  "init_ind_margin_trade tf = init_trade TRADE_IND_MARGIN tf"

text \<open>
  Both classes declare \<^verbatim>\<open>__slots__\<close>, so an instance has no dictionary: assigning an
  attribute whose name is not a slot raises AttributeError.
\<close>

definition slots :: "string list" where
  "slots = [''_trade_type'', ''_entry_state'', ''_exit_state'', ''_timeframe'', ''_operations'',
     ''_user_trade'', ''_next_operation_id'', ''id'', ''dir'', ''op'', ''oq'', ''tp'', ''sl'',
     ''aep'', ''axp'', ''eot'', ''xot'', ''e'', ''x'', ''pl'', ''ptp'', ''_stats'',
     ''create_ref_oid'', ''stop_ref_oid'', ''limit_ref_oid'', ''create_oid'', ''stop_oid'',
     ''limit_oid'', ''position_id'', ''stop_order_qty'', ''limit_order_qty'']"

text \<open>
  \<^verbatim>\<open>self.<name> = v\<close> for an order id \<open>v\<close>: a name that is not a slot raises, the slots
  that hold order ids are updated. The source never assigns an order id to another slot;
  the record could not hold it there.
\<close>

definition setattr_oid :: "string \<Rightarrow> oid option \<Rightarrow> trade \<Rightarrow> error + trade" where
  "setattr_oid name v t =
     (if name \<notin> set slots then Inl AttributeError
      else if name = ''create_ref_oid'' then Inr (t\<lparr>create_ref_oid := v\<rparr>)
      else if name = ''stop_ref_oid'' then Inr (t\<lparr>stop_ref_oid := v\<rparr>)
      else if name = ''limit_ref_oid'' then Inr (t\<lparr>limit_ref_oid := v\<rparr>)
      else if name = ''create_oid'' then Inr (t\<lparr>create_oid := v\<rparr>)
      else if name = ''stop_oid'' then Inr (t\<lparr>stop_oid := v\<rparr>)
      else if name = ''limit_oid'' then Inr (t\<lparr>limit_oid := v\<rparr>)
      else if name = ''position_id'' then Inr (t\<lparr>position_id := v\<rparr>)
      else Inl NotModelled)"

subsection \<open>Queries of StrategyTrade\<close>

text \<open>
  \<^verbatim>\<open>return self._exit_state == StrategyTrade.STATE_FILLED and self.x >= self.e\<close>
\<close>

definition is_closed :: "trade \<Rightarrow> bool" where
  "is_closed t = (exit_state t = STATE_FILLED \<and> x_qty t \<ge> e_qty t)"

text \<open>
  \<^verbatim>\<open>return (self._entry_state == StrategyTrade.STATE_OPENED) and (self.e == 0)
         and (self.eot > 0) and ((timestamp - self.eot) >= timeout)\<close>
\<close>

definition is_entry_timeout :: "real \<Rightarrow> real \<Rightarrow> trade \<Rightarrow> bool" where
  "is_entry_timeout timestamp timeout t =
     (entry_state t = STATE_OPENED \<and> e_qty t = 0 \<and> eot t > 0 \<and> timestamp - eot t \<ge> timeout)"

subsection \<open>Broker events\<close>

text \<open>
  The \<^verbatim>\<open>data\<close> argument of a signal depends on the signal's type: a dictionary for an
  opened or traded order and for a deleted position, the order id itself for a deleted or
  canceled order. \<^verbatim>\<open>data['k']\<close> is a field, \<^verbatim>\<open>data.get('k')\<close> an optional one.
\<close>

record opened_data =
  o_id :: oid
  o_timestamp :: real
  o_stop_loss :: "real option"
  o_take_profit :: "real option"

record traded_data =
  t_id :: oid
  t_filled :: "real option"
  t_cumulative_filled :: "real option"
  t_avg_price :: "real option"
  t_exec_price :: "real option"

record position_data =
  p_exec_price :: "real option"

datatype order_event =
    SIGNAL_ORDER_OPENED opened_data
  | SIGNAL_ORDER_DELETED oid
  | SIGNAL_ORDER_CANCELED oid
  | SIGNAL_ORDER_UPDATED
  | SIGNAL_ORDER_TRADED traded_data
  | SIGNAL_ORDER_OTHER

datatype position_event =
    SIGNAL_POSITION_DELETED position_data
  | SIGNAL_POSITION_OTHER

subsection \<open>StrategyIndMarginTrade.order\_signal\<close>

text \<open>
  The filled quantity of a traded event, \<open>q\<close> being the quantity filled so far:
  \<^verbatim>\<open>
  if data.get('cumulative-filled') is not None and data['cumulative-filled'] > 0:
      filled = data['cumulative-filled'] - q
  elif data.get('filled') is not None and data['filled'] > 0:
      filled = data['filled']
  else:
      filled = 0
  \<close>
\<close>

definition fill_qty :: "traded_data \<Rightarrow> real \<Rightarrow> real" where
  "fill_qty d q =
     (case pos_val (t_cumulative_filled d) of
        Some c \<Rightarrow> c - q
      | None \<Rightarrow> (case pos_val (t_filled d) of Some f \<Rightarrow> f | None \<Rightarrow> 0))"

text \<open>
  The new average entry price (lines 343 to 351): the broker's average, else the weighted
  average with the execution price, else the order price. The quotient is the exact one;
  the source's float quotient is its rounding.
\<close>

definition entry_avg_price :: "traded_data \<Rightarrow> real \<Rightarrow> trade \<Rightarrow> (error \<times> trade) + trade" where
  "entry_avg_price d filled t =
     (case pos_val (t_avg_price d) of
        Some a \<Rightarrow> Inr (t\<lparr>aep := a\<rparr>)
      | None \<Rightarrow>
         (case pos_val (t_exec_price d) of
            Some p \<Rightarrow>
              (case py_div (aep t * e_qty t + p * filled) (e_qty t + filled) of
                 Inl err \<Rightarrow> Inl (err, t)
               | Inr a \<Rightarrow> Inr (t\<lparr>aep := a\<rparr>))
          | None \<Rightarrow> Inr (t\<lparr>aep := op t\<rparr>)))"

text \<open>
  \<^verbatim>\<open>
  if data.get('cumulative-filled') is not None:
      self.e = data.get('cumulative-filled')
  else:
      self.e += filled
  \<close>
\<close>

definition cumulate :: "traded_data \<Rightarrow> real \<Rightarrow> real \<Rightarrow> real" where
  "cumulate d filled q = (case t_cumulative_filled d of Some c \<Rightarrow> c | None \<Rightarrow> q + filled)"

text \<open>
  The entry branch of a traded event (lines 333 to 368). On reaching the ordered quantity
  the source assigns \<^verbatim>\<open>self._create_oid = None\<close> and \<^verbatim>\<open>self._create_ref_oid = None\<close>.
\<close>

definition traded_entry :: "traded_data \<Rightarrow> trade \<Rightarrow> unit result" where
  "traded_entry d t =
     (let filled = fill_qty d (e_qty t) in
      case entry_avg_price d filled t of
        Inl r \<Rightarrow> Inl r
      | Inr t1 \<Rightarrow>
          (let t2 = t1\<lparr>e_qty := cumulate d filled (e_qty t1)\<rparr> in
           if e_qty t2 \<ge> oq t2 then
             (let t3 = t2\<lparr>entry_state := STATE_FILLED\<rparr> in
              case setattr_oid ''_create_oid'' None t3 of
                Inl err \<Rightarrow> Inl (err, t3)
              | Inr t4 \<Rightarrow>
                  (case setattr_oid ''_create_ref_oid'' None t4 of
                     Inl err \<Rightarrow> Inl (err, t4)
                   | Inr t5 \<Rightarrow> Inr ((), t5)))
           else Inr ((), t2\<lparr>entry_state := STATE_PARTIALLY_FILLED\<rparr>)))"

text \<open>
  Profit/loss and average exit price of an exit fill (lines 379 to 397). The profit/loss
  is assigned before the average exit price is computed.
\<close>

definition exit_prices :: "traded_data \<Rightarrow> real \<Rightarrow> trade \<Rightarrow> (error \<times> trade) + trade" where
  "exit_prices d filled t =
     (case pos_val (t_avg_price d) of
        Some a \<Rightarrow>
          (if dir t > 0 then
             (case py_div (a - aep t) (aep t) of
                Inl err \<Rightarrow> Inl (err, t)
              | Inr v \<Rightarrow> Inr (t\<lparr>pl := v, axp := a\<rparr>))
           else if dir t < 0 then
             (case py_div (aep t - a) (aep t) of
                Inl err \<Rightarrow> Inl (err, t)
              | Inr v \<Rightarrow> Inr (t\<lparr>pl := v, axp := a\<rparr>))
           else Inr (t\<lparr>axp := a\<rparr>))
      | None \<Rightarrow>
         (case pos_val (t_exec_price d) of
            Some p \<Rightarrow>
              (case (if dir t > 0 then
                       (case py_div (p * filled - aep t * e_qty t) (aep t * e_qty t) of
                          Inl err \<Rightarrow> Inl (err, t)
                        | Inr v \<Rightarrow> Inr (t\<lparr>pl := pl t + v\<rparr>))
                     else if dir t < 0 then
                       (case py_div (aep t * e_qty t - p * filled) (aep t * e_qty t) of
                          Inl err \<Rightarrow> Inl (err, t)
                        | Inr v \<Rightarrow> Inr (t\<lparr>pl := pl t + v\<rparr>))
                     else Inr t) of
                 Inl r \<Rightarrow> Inl r
               | Inr t1 \<Rightarrow>
                   (case py_div (axp t1 * x_qty t1 + p * filled) (x_qty t1 + filled) of
                      Inl err \<Rightarrow> Inl (err, t1)
                    | Inr a \<Rightarrow> Inr (t1\<lparr>axp := a\<rparr>)))
          | None \<Rightarrow> Inr t))"

text \<open>
  The exit branch of a traded event (lines 370 to 418), for the limit or the stop order.
  On \<^verbatim>\<open>self.x >= self.oq\<close> the source assigns \<^verbatim>\<open>self._limit_oid = None\<close> and
  \<^verbatim>\<open>self._limit_ref_oid = None\<close>, or the same for the stop order.
\<close>

definition traded_exit :: "traded_data \<Rightarrow> trade \<Rightarrow> unit result" where
  "traded_exit d t =
     (let filled = fill_qty d (x_qty t) in
      case exit_prices d filled t of
        Inl r \<Rightarrow> Inl r
      | Inr t1 \<Rightarrow>
          (let t2 = t1\<lparr>x_qty := cumulate d filled (x_qty t1)\<rparr> in
           if x_qty t2 \<ge> oq t2 then
             (let t3 = t2\<lparr>exit_state := STATE_FILLED\<rparr> in
              if limit_oid t3 = Some (t_id d) then
                (case setattr_oid ''_limit_oid'' None t3 of
                   Inl err \<Rightarrow> Inl (err, t3)
                 | Inr t4 \<Rightarrow>
                     (case setattr_oid ''_limit_ref_oid'' None t4 of
                        Inl err \<Rightarrow> Inl (err, t4)
                      | Inr t5 \<Rightarrow> Inr ((), t5)))
              else if stop_oid t3 = Some (t_id d) then
                (case setattr_oid ''_stop_oid'' None t3 of
                   Inl err \<Rightarrow> Inl (err, t3)
                 | Inr t4 \<Rightarrow>
                     (case setattr_oid ''_stop_ref_oid'' None t4 of
                        Inl err \<Rightarrow> Inl (err, t4)
                      | Inr t5 \<Rightarrow> Inr ((), t5)))
              else Inr ((), t3))
           else Inr ((), t2\<lparr>exit_state := STATE_PARTIALLY_FILLED\<rparr>)))"

text \<open>\<^verbatim>\<open>order_signal(signal_type, data, ref_order_id, instrument)\<close>; the instrument is unused.\<close>

definition order_signal :: "order_event \<Rightarrow> oid option \<Rightarrow> trade \<Rightarrow> unit result" where
  "order_signal ev ref_order_id t =
     (case ev of
        SIGNAL_ORDER_OPENED d \<Rightarrow>
          (if ref_order_id = create_ref_oid t then
             (let t1 = t\<lparr>create_oid := Some (o_id d), eot := o_timestamp d\<rparr>;
                  t2 = (if truthy_num (o_stop_loss d) then t1\<lparr>sl := o_stop_loss d\<rparr> else t1);
                  t3 = (if truthy_num (o_take_profit d) then t2\<lparr>tp := o_take_profit d\<rparr> else t2)
              in Inr ((), t3\<lparr>entry_state := STATE_OPENED\<rparr>))
           else if ref_order_id = stop_ref_oid t then
             Inr ((), t\<lparr>stop_oid := Some (o_id d), xot := o_timestamp d\<rparr>)
           else if ref_order_id = limit_ref_oid t then
             Inr ((), t\<lparr>limit_oid := Some (o_id d), xot := o_timestamp d\<rparr>)
           else Inr ((), t))
      | SIGNAL_ORDER_DELETED data \<Rightarrow>
          (if Some data = create_oid t then
             Inr ((), t\<lparr>create_ref_oid := None, create_oid := None, entry_state := STATE_DELETED\<rparr>)
           else if Some data = limit_oid t then
             Inr ((), t\<lparr>limit_ref_oid := None, limit_oid := None\<rparr>)
           else if Some data = stop_oid t then
             Inr ((), t\<lparr>stop_ref_oid := None, stop_oid := None\<rparr>)
           else Inr ((), t))
      | SIGNAL_ORDER_CANCELED data \<Rightarrow>
          (if Some data = create_oid t then
             Inr ((), t\<lparr>create_ref_oid := None, create_oid := None, entry_state := STATE_CANCELED\<rparr>)
           else if Some data = limit_oid t then
             Inr ((), t\<lparr>limit_ref_oid := None, limit_oid := None\<rparr>)
           else if Some data = stop_oid t then
             Inr ((), t\<lparr>stop_ref_oid := None, stop_oid := None\<rparr>)
           else Inr ((), t))
      | SIGNAL_ORDER_UPDATED \<Rightarrow> Inr ((), t)
      | SIGNAL_ORDER_TRADED d \<Rightarrow>
          (if Some (t_id d) = create_oid t then traded_entry d t
           else if Some (t_id d) = limit_oid t \<or> Some (t_id d) = stop_oid t then traded_exit d t
           else Inr ((), t))
      | SIGNAL_ORDER_OTHER \<Rightarrow> Inr ((), t))"

subsection \<open>StrategyIndMarginTrade.position\_signal\<close>

text \<open>
  On a deleted position (lines 421 to 441) the ids of the position and of the entry order
  are cleared; with an unfilled exit the local \<^verbatim>\<open>filled = self.e - self.x\<close> enters the
  profit/loss when an execution price is given; the exit state becomes FILLED. No
  assignment to \<^verbatim>\<open>self.x\<close> or \<^verbatim>\<open>self.axp\<close> is made.
\<close>

definition position_signal :: "position_event \<Rightarrow> oid option \<Rightarrow> trade \<Rightarrow> unit result" where
  "position_signal ev ref_order_id t =
     (case ev of
        SIGNAL_POSITION_DELETED d \<Rightarrow>
          (let t1 = t\<lparr>position_id := None, create_oid := None, create_ref_oid := None\<rparr> in
           case (if x_qty t1 < e_qty t1 then
                   (let filled = e_qty t1 - x_qty t1 in
                    case pos_val (p_exec_price d) of
                      Some p \<Rightarrow>
                        (if dir t1 > 0 then
                           (case py_div (p * filled - aep t1 * e_qty t1) (aep t1 * e_qty t1) of
                              Inl err \<Rightarrow> Inl (err, t1)
                            | Inr v \<Rightarrow> Inr (t1\<lparr>pl := pl t1 + v\<rparr>))
                         else if dir t1 < 0 then
                           (case py_div (aep t1 * e_qty t1 - p * filled) (aep t1 * e_qty t1) of
                              Inl err \<Rightarrow> Inl (err, t1)
                            | Inr v \<Rightarrow> Inr (t1\<lparr>pl := pl t1 + v\<rparr>))
                         else Inr t1)
                    | None \<Rightarrow> Inr t1)
                 else Inr t1) of
             Inl r \<Rightarrow> Inl r
           | Inr t2 \<Rightarrow> Inr ((), t2\<lparr>exit_state := STATE_FILLED\<rparr>))
      | SIGNAL_POSITION_OTHER \<Rightarrow> Inr ((), t))"

subsection \<open>The broker, and the limit and stop orders of a trade\<close>

text \<open>
  The class Order and the trader are not part of the modelled files. An order is the
  record of the attributes the trade reads and writes; the trader is taken as a
  parameter: the answers of \<^verbatim>\<open>cancel_order\<close>, \<^verbatim>\<open>set_ref_order_id\<close> and \<^verbatim>\<open>create_order\<close> (which
  assign attributes of the order), the order \<^verbatim>\<open>Order(trader, market_id)\<close> as constructed, and
  \<^verbatim>\<open>Order.is_market\<close>. Each is called at most once by the methods below.
\<close>

datatype order_type = ORDER_MARKET | ORDER_LIMIT | ORDER_STOP | ORDER_TAKE_PROFIT_LIMIT

record order =
  ord_direction :: int
  ord_type :: order_type
  ord_price :: "real option"
  ord_quantity :: real
  ord_reduce_only :: bool
  ord_ref_order_id :: "oid option"
  ord_order_id :: "oid option"
  ord_position_id :: "oid option"
  ord_created_time :: real

record trader =
  cancel_order :: "oid \<Rightarrow> bool"
  set_ref_order_id :: "order \<Rightarrow> order"
  create_order :: "order \<Rightarrow> bool \<times> order"
  new_order :: "string \<Rightarrow> order"
  is_market :: "order \<Rightarrow> bool"

text \<open>
  \<^verbatim>\<open>modify_take_profit\<close> after the old limit order is out of the way (lines 135 to 168).
\<close>

definition place_limit :: "trader \<Rightarrow> string \<Rightarrow> real \<Rightarrow> trade \<Rightarrow> bool \<times> trade" where
  "place_limit trader market_id price t =
     (if e_qty t = x_qty t then (True, t)
      else if e_qty t < x_qty t then (False, t)
      else if e_qty t > 0 then
        (let order = (new_order trader market_id)\<lparr>ord_direction := dir t,
               ord_type := ORDER_TAKE_PROFIT_LIMIT, ord_quantity := e_qty t - x_qty t,
               ord_price := Some price\<rparr>;
             order1 = set_ref_order_id trader order;
             t1 = t\<lparr>limit_ref_oid := ord_ref_order_id order1\<rparr>;
             t2 = t1\<lparr>stats := (stats t1)\<lparr>exit_maker := \<not> is_market trader order1\<rparr>\<rparr>
         in case create_order trader order1 of
              (True, order2) \<Rightarrow>
                (True, t2\<lparr>limit_oid := ord_order_id order2, limit_order_qty := ord_quantity order2,
                   tp := Some price\<rparr>)
            | (False, order2) \<Rightarrow> (False, t2\<lparr>limit_ref_oid := None, limit_order_qty := 0\<rparr>))
      else (False, t))"

text \<open>
  \<^verbatim>\<open>
  if self.limit_oid:
      if trader.cancel_order(self.limit_oid):
          self.limit_ref_oid = None; self.limit_oid = None; self.limit_order_qty = 0.0
      else:
          return False
  \<close>
  and then the placement above.
\<close>

definition modify_take_profit :: "trader \<Rightarrow> string \<Rightarrow> real \<Rightarrow> trade \<Rightarrow> bool \<times> trade" where
  "modify_take_profit trader market_id price t =
     (case limit_oid t of
        None \<Rightarrow> place_limit trader market_id price t
      | Some i \<Rightarrow>
          if i = [] then place_limit trader market_id price t
          else if cancel_order trader i then
            place_limit trader market_id price
              (t\<lparr>limit_ref_oid := None, limit_oid := None, limit_order_qty := 0\<rparr>)
          else (False, t))"

text \<open>\<^verbatim>\<open>modify_stop_loss\<close> after the old stop order is out of the way (lines 179 to 212).\<close>

definition place_stop :: "trader \<Rightarrow> string \<Rightarrow> real \<Rightarrow> trade \<Rightarrow> bool \<times> trade" where
  "place_stop trader market_id price t =
     (if e_qty t = x_qty t then (True, t)
      else if e_qty t < x_qty t then (False, t)
      else if e_qty t > 0 then
        (let order = (new_order trader market_id)\<lparr>ord_direction := dir t,
               ord_type := ORDER_STOP, ord_reduce_only := True,
               ord_quantity := e_qty t - x_qty t, ord_price := Some price\<rparr>;
             order1 = set_ref_order_id trader order;
             t1 = t\<lparr>stop_ref_oid := ord_ref_order_id order1\<rparr>;
             t2 = t1\<lparr>stats := (stats t1)\<lparr>exit_maker := \<not> is_market trader order1\<rparr>\<rparr>
         in case create_order trader order1 of
              (True, order2) \<Rightarrow>
                (True, t2\<lparr>stop_oid := ord_order_id order2, stop_order_qty := ord_quantity order2,
                   sl := Some price\<rparr>)
            | (False, order2) \<Rightarrow> (False, t2\<lparr>stop_ref_oid := None, stop_order_qty := 0\<rparr>))
      else (False, t))"

text \<open>
  \<^verbatim>\<open>
  if self.stop_oid:
      if trader.cancel_order(self.stop_oid):
          self.stop_ref_oid = None; self.stop_oid = None
      else:
          return False
  \<close>
  and then the placement above.
\<close>

definition modify_stop_loss :: "trader \<Rightarrow> string \<Rightarrow> real \<Rightarrow> trade \<Rightarrow> bool \<times> trade" where
  "modify_stop_loss trader market_id price t =
     (case stop_oid t of
        None \<Rightarrow> place_stop trader market_id price t
      | Some i \<Rightarrow>
          if i = [] then place_stop trader market_id price t
          else if cancel_order trader i then
            place_stop trader market_id price (t\<lparr>stop_ref_oid := None, stop_oid := None\<rparr>)
          else (False, t))"

subsection \<open>Persistence\<close>

text \<open>
  The dictionary of \<^verbatim>\<open>dumps\<close> and \<^verbatim>\<open>loads\<close>, one optional field per key: \<open>None\<close> is a
  missing key (and, for the entries read with \<^verbatim>\<open>data.get(key)\<close> or a None default, also the
  value None). The entry \<^verbatim>\<open>'version'\<close> (the bound method \<^verbatim>\<open>self.version\<close>) is never read back
  and is left out.
\<close>

record trade_data =
  d_id :: "int option"
  d_type :: "trade_type option"
  d_entry_state :: "trade_state option"
  d_exit_state :: "trade_state option"
  d_timeframe :: "real option"
  d_user_trade :: "bool option"
  d_avg_entry_price :: "real option"
  d_avg_exit_price :: "real option"
  d_take_profit_price :: "real option"
  d_stop_loss_price :: "real option"
  d_direction :: "int option"
  d_entry_open_time :: "real option"
  d_exit_open_time :: "real option"
  d_order_qty :: "real option"
  d_filled_entry_qty :: "real option"
  d_filled_exit_qty :: "real option"
  d_profit_loss_rate :: "real option"
  d_statistics :: "stats option"
  d_create_ref_oid :: "oid option"
  d_stop_ref_oid :: "oid option"
  d_limit_ref_oid :: "oid option"
  d_create_oid :: "oid option"
  d_stop_oid :: "oid option"
  d_limit_oid :: "oid option"
  d_position_id :: "oid option"
  d_stop_order_qty :: "real option"
  d_limit_order_qty :: "real option"

text \<open>
  \<^verbatim>\<open>
  if self._trade_type == StrategyTrade.TRADE_ASSET:    return 'asset'
  elif self._trade_type == StrategyTrade.TRADE_MARGIN: return 'margin'
  elif self._trade_type == StrategyTrade.TRADE_MARGIN: return 'indisible-margin'
  else:                                                return "undefined"
  \<close>
\<close>

definition trade_type_to_str :: "trade \<Rightarrow> string" where
  "trade_type_to_str t =
     (if trade_type t = TRADE_ASSET then ''asset''
      else if trade_type t = TRADE_MARGIN then ''margin''
      else if trade_type t = TRADE_MARGIN then ''indisible-margin''
      else ''undefined'')"

text \<open>\<^verbatim>\<open>data.get(key, default)\<close>\<close>

definition get_default :: "'a option \<Rightarrow> 'a \<Rightarrow> 'a" where
  "get_default v d = (case v of None \<Rightarrow> d | Some a \<Rightarrow> a)"

text \<open>\<^verbatim>\<open>StrategyTrade.dumps\<close>: the type is written as a string, every other entry as it is.\<close>

definition dumps :: "trade \<Rightarrow> trade_data" where
  "dumps t = \<lparr> d_id = Some (trade_id t),
     d_type = Some (TypeName (trade_type_to_str t)),
     d_entry_state = Some (entry_state t),
     d_exit_state = Some (exit_state t),
     d_timeframe = Some (timeframe t),
     d_user_trade = Some (user_trade t),
     d_avg_entry_price = Some (aep t),
     d_avg_exit_price = Some (axp t),
     d_take_profit_price = tp t,
     d_stop_loss_price = sl t,
     d_direction = Some (dir t),
     d_entry_open_time = Some (eot t),
     d_exit_open_time = Some (xot t),
     d_order_qty = Some (oq t),
     d_filled_entry_qty = Some (e_qty t),
     d_filled_exit_qty = Some (x_qty t),
     d_profit_loss_rate = Some (pl t),
     d_statistics = Some (stats t),
     d_create_ref_oid = None, d_stop_ref_oid = None, d_limit_ref_oid = None,
     d_create_oid = None, d_stop_oid = None, d_limit_oid = None, d_position_id = None,
     d_stop_order_qty = None, d_limit_order_qty = None \<rparr>"

text \<open>
  \<^verbatim>\<open>StrategyTrade.loads(self, data)\<close>: every entry is stored as it is read
  (\<^verbatim>\<open>self._trade_type = data.get('type', 0)\<close>); a missing \<^verbatim>\<open>'user-trade'\<close> gives None, which
  is false. It returns True.
\<close>

definition loads :: "trade_data \<Rightarrow> trade \<Rightarrow> bool \<times> trade" where
  "loads data t =
     (True, t\<lparr> trade_id := get_default (d_id data) (- 1),
        trade_type := get_default (d_type data) (TypeCode 0),
        entry_state := get_default (d_entry_state data) STATE_NEW,
        exit_state := get_default (d_exit_state data) STATE_NEW,
        timeframe := get_default (d_timeframe data) 0,
        user_trade := get_default (d_user_trade data) False,
        operations := [],
        next_operation_id := - 1,
        dir := get_default (d_direction data) 0,
        oq := get_default (d_order_qty data) 0,
        tp := d_take_profit_price data,
        sl := d_stop_loss_price data,
        aep := get_default (d_avg_entry_price data) 0,
        axp := get_default (d_avg_exit_price data) 0,
        eot := get_default (d_entry_open_time data) 0,
        xot := get_default (d_exit_open_time data) 0,
        e_qty := get_default (d_filled_entry_qty data) 0,
        x_qty := get_default (d_filled_exit_qty data) 0,
        pl := get_default (d_profit_loss_rate data) 0,
        stats := get_default (d_statistics data) init_stats \<rparr>)"

text \<open>\<^verbatim>\<open>StrategyIndMarginTrade.dumps\<close>\<close>

definition ind_margin_dumps :: "trade \<Rightarrow> trade_data" where
  "ind_margin_dumps t = (dumps t)\<lparr> d_create_ref_oid := create_ref_oid t,
     d_stop_ref_oid := stop_ref_oid t,
     d_limit_ref_oid := limit_ref_oid t,
     d_create_oid := create_oid t,
     d_stop_oid := stop_oid t,
     d_limit_oid := limit_oid t,
     d_position_id := position_id t,
     d_stop_order_qty := Some (stop_order_qty t),
     d_limit_order_qty := Some (limit_order_qty t) \<rparr>"

text \<open>
  A call of \<^verbatim>\<open>StrategyTrade.loads\<close> with \<open>n\<close> arguments besides \<^verbatim>\<open>self\<close>: the method is
  declared \<^verbatim>\<open>def loads(self, data)\<close>, and Python raises TypeError, before the body runs,
  on any other number of positional arguments.
\<close>

definition loads_parameters :: nat where
  "loads_parameters = 1"

definition call_loads :: "nat \<Rightarrow> trade_data \<Rightarrow> trade \<Rightarrow> bool result" where
  "call_loads n data t = (if n = loads_parameters then Inr (loads data t) else Inl (TypeError, t))"

text \<open>
  \<^verbatim>\<open>StrategyIndMarginTrade.loads(self, data, strategy_service)\<close>, which starts with
  \<^verbatim>\<open>if not super().loads(data, strategy_service): return False\<close>.
\<close>

definition ind_margin_loads :: "trade_data \<Rightarrow> trade \<Rightarrow> bool result" where
  "ind_margin_loads data t =
     (case call_loads 2 data t of
        Inl r \<Rightarrow> Inl r
      | Inr (ok, t1) \<Rightarrow>
          if \<not> ok then Inr (False, t1)
          else Inr (True, t1\<lparr> create_ref_oid := d_create_ref_oid data,
                 stop_ref_oid := d_stop_ref_oid data,
                 limit_ref_oid := d_limit_ref_oid data,
                 create_oid := d_create_oid data,
                 stop_oid := d_stop_oid data,
                 limit_oid := d_limit_oid data,
                 position_id := d_position_id data,
                 stop_order_qty := get_default (d_stop_order_qty data) 0,
                 limit_order_qty := get_default (d_limit_order_qty data) 0 \<rparr>))"

subsection \<open>The entry filter of CryptoAlphaStrategyTrader.process\<close>

record strategy_signal =
  sig_timeframe :: real
  sig_dir :: int
  sig_price :: real
  sig_sl :: "real option"
  sig_tp :: "real option"

text \<open>
  What the filter reads of the strategy trader, whose base class and indicators are not
  part of the modelled files: the traded range of timeframes, \<^verbatim>\<open>check_regions\<close> with the
  allowed regions, \<^verbatim>\<open>parent_timeframe\<close>, the stop of the ATR indicator per timeframe and
  direction, the last price of the reference timeframe, and the pivot point's
  \<^verbatim>\<open>last_resistances\<close> of the take-profit timeframe.
\<close>

record entry_env =
  min_traded_timeframe :: real
  max_traded_timeframe :: real
  check_regions :: "strategy_signal \<Rightarrow> bool"
  parent_timeframe :: "real \<Rightarrow> real"
  atr_stop_loss :: "real \<Rightarrow> int \<Rightarrow> real"
  last_price :: real
  last_resistances :: "real list"

text \<open>\<^verbatim>\<open>xs[i]\<close> for an index that is not negative.\<close>

definition list_get :: "'a list \<Rightarrow> nat \<Rightarrow> error + 'a" where
  "list_get xs i = (if i < length xs then Inr (xs ! i) else Inl IndexError)"

text \<open>
  One turn of the loop over the entries (lines 199 to 253): \<open>Inr None\<close> is
  \<^verbatim>\<open>continue\<close>, \<open>Inr (Some entry)\<close> the entry appended to \<^verbatim>\<open>retained_entries\<close>. The resistance
  is read into the local variable \<^verbatim>\<open>tp\<close> (here \<open>tp'\<close>; the local \<^verbatim>\<open>sl\<close> is \<open>sl'\<close>), which nothing
  reads afterwards.
\<close>

definition filter_entry :: "entry_env \<Rightarrow> strategy_signal \<Rightarrow> error + strategy_signal option" where
  "filter_entry env entry =
     (let parent_entry_tf = parent_timeframe env (sig_timeframe entry) in
      if \<not> (min_traded_timeframe env \<le> sig_timeframe entry \<and>
              sig_timeframe entry \<le> max_traded_timeframe env) then Inr None
      else if \<not> check_regions env entry then Inr None
      else
        (let entry1 =
               (if \<not> truthy_num (sig_sl entry) then
                  (let sl' = atr_stop_loss env parent_entry_tf (sig_dir entry) in
                   if sl' < last_price env then entry\<lparr>sig_sl := Some sl'\<rparr> else entry)
                else entry)
         in if \<not> truthy_num (sig_tp entry1) then
              (if length (last_resistances env) > 0 then
                 (case list_get (last_resistances env) 2 of
                    Inl err \<Rightarrow> Inl err
                  | Inr tp' \<Rightarrow> Inr (Some entry1))
               else Inr (Some entry1))
            else Inr (Some entry1)))"

fun retained_entries :: "entry_env \<Rightarrow> strategy_signal list \<Rightarrow> error + strategy_signal list" where
  "retained_entries env [] = Inr []"
| "retained_entries env (entry # entries) =
     (case filter_entry env entry of
        Inl err \<Rightarrow> Inl err
      | Inr r \<Rightarrow>
          (case retained_entries env entries of
             Inl err \<Rightarrow> Inl err
           | Inr rs \<Rightarrow> Inr (case r of None \<Rightarrow> rs | Some s \<Rightarrow> s # rs)))"

text \<open>
  The arguments of \<^verbatim>\<open>self.process_entry(timestamp, signal_price, entry.tp, entry.sl,
  entry.timeframe)\<close> with \<^verbatim>\<open>signal_price = entry.price + height\<close> and \<^verbatim>\<open>height = 0\<close>;
  \<^verbatim>\<open>process_entry\<close> hands its \<^verbatim>\<open>take_profit\<close> to \<^verbatim>\<open>trade.open\<close> as it is.
\<close>

record entry_call =
  c_timestamp :: real
  c_price :: real
  c_take_profit :: "real option"
  c_stop_loss :: "real option"
  c_timeframe :: real

definition process_entry_call :: "real \<Rightarrow> strategy_signal \<Rightarrow> entry_call" where
  "process_entry_call timestamp entry =
     \<lparr> c_timestamp = timestamp, c_price = sig_price entry + 0, c_take_profit = sig_tp entry,
       c_stop_loss = sig_sl entry, c_timeframe = sig_timeframe entry \<rparr>"

text \<open>The calls of \<^verbatim>\<open>process_entry\<close> made by \<^verbatim>\<open>process\<close> for the entries it retained.\<close>

definition submitted_entries :: "real \<Rightarrow> entry_env \<Rightarrow> strategy_signal list \<Rightarrow> error + entry_call list" where
  "submitted_entries timestamp env entries =
     (case retained_entries env entries of
        Inl err \<Rightarrow> Inl err
      | Inr rs \<Rightarrow> Inr (map (process_entry_call timestamp) rs))"

subsection \<open>Example states and events\<close>

text \<open>
  A long trade of five units, two of them exited (scenario "position deleted mid-exit").
\<close>

definition deleted_mid_exit :: trade where
  "deleted_mid_exit = (init_ind_margin_trade 60)\<lparr>entry_state := STATE_FILLED,
     exit_state := STATE_PARTIALLY_FILLED, dir := 1, oq := 5, aep := 100, e_qty := 5,
     x_qty := 2\<rparr>"

text \<open>A long trade of ten units whose entry order \<open>A\<close> is opened and unfilled.\<close>

definition opened_entry :: trade where
  "opened_entry = (init_ind_margin_trade 60)\<lparr>entry_state := STATE_OPENED, dir := 1,
     op := 100, oq := 10, eot := 1000, create_ref_oid := Some ''ref-1'',
     create_oid := Some ''A''\<rparr>"

text \<open>The same trade filled at 100, with a limit order \<open>L\<close> and a stop order \<open>S\<close>.\<close>

definition filled_entry :: trade where
  "filled_entry = opened_entry\<lparr>entry_state := STATE_FILLED, aep := 100, e_qty := 10,
     create_ref_oid := None, create_oid := None, tp := Some 110, sl := Some 90,
     limit_ref_oid := Some ''ref-2'', limit_oid := Some ''L'', limit_order_qty := 10,
     stop_ref_oid := Some ''ref-3'', stop_oid := Some ''S'', stop_order_qty := 10\<rparr>"

text \<open>The whole order \<open>A\<close> filled at the average price 100.\<close>

definition full_fill :: traded_data where
  "full_fill = \<lparr>t_id = ''A'', t_filled = None, t_cumulative_filled = Some 10,
     t_avg_price = Some 100, t_exec_price = None\<rparr>"

text \<open>The whole limit order \<open>L\<close> filled at the average price 110.\<close>

definition limit_fill :: traded_data where
  "limit_fill = \<lparr>t_id = ''L'', t_filled = None, t_cumulative_filled = Some 10,
     t_avg_price = Some 110, t_exec_price = None\<rparr>"

text \<open>A trader that refuses every cancel and every order.\<close>

definition refusing_trader :: trader where
  "refusing_trader = \<lparr> cancel_order = (\<lambda>i. False), set_ref_order_id = (\<lambda>order. order),
     create_order = (\<lambda>order. (False, order)),
     new_order = (\<lambda>market_id. \<lparr> ord_direction = 0, ord_type = ORDER_MARKET, ord_price = None,
       ord_quantity = 0, ord_reduce_only = False, ord_ref_order_id = None, ord_order_id = None,
       ord_position_id = None, ord_created_time = 0 \<rparr>),
     is_market = (\<lambda>order. ord_type order = ORDER_MARKET) \<rparr>"

text \<open>An entry signal with neither stop nor target, and a trader with three resistances.\<close>

definition bare_entry :: strategy_signal where
  "bare_entry = \<lparr> sig_timeframe = 900, sig_dir = 1, sig_price = 100, sig_sl = None,
     sig_tp = None \<rparr>"

definition three_resistances :: entry_env where
  "three_resistances = \<lparr> min_traded_timeframe = 60, max_traded_timeframe = 3600,
     check_regions = (\<lambda>s. True), parent_timeframe = (\<lambda>tf. tf * 4),
     atr_stop_loss = (\<lambda>tf d. 90), last_price = 100, last_resistances = [130, 120, 110] \<rparr>"

text \<open>
  Traded events with an execution price and no quantity at all, for the entry order \<open>A\<close>
  and for the limit order \<open>L\<close>.
\<close>

definition priced_only :: traded_data where
  "priced_only = \<lparr>t_id = ''A'', t_filled = None, t_cumulative_filled = None,
     t_avg_price = None, t_exec_price = Some 100\<rparr>"

definition priced_exit :: traded_data where
  "priced_exit = \<lparr>t_id = ''L'', t_filled = None, t_cumulative_filled = None,
     t_avg_price = None, t_exec_price = Some 110\<rparr>"

section \<open>Properties\<close>

subsection \<open>Auxiliary facts\<close>

lemmas init_defs = init_ind_margin_trade_def init_trade_def init_stats_def

lemma setattr_not_slot:
  "setattr_oid ''_create_oid'' v t = Inl AttributeError"
  "setattr_oid ''_limit_oid'' v t = Inl AttributeError"
  "setattr_oid ''_stop_oid'' v t = Inl AttributeError"
  by (simp_all add: setattr_oid_def slots_def)

text \<open>Zero divisors of a traded event that carries an execution price and no average.\<close>

lemma raised_traded_entry:
  assumes "pos_val (t_avg_price d) = None" "pos_val (t_exec_price d) = Some p"
  shows "raised (traded_entry d t) = Some ZeroDivisionError \<longleftrightarrow>
           e_qty t + fill_qty d (e_qty t) = 0"
  using assms
  by (auto simp: traded_entry_def entry_avg_price_def py_div_def raised_def Let_def
      setattr_not_slot)

lemma raised_exit_prices:
  assumes "pos_val (t_avg_price d) = None" "pos_val (t_exec_price d) = Some p"
  shows "(\<exists>t'. exit_prices d f t = Inl (ZeroDivisionError, t')) \<longleftrightarrow>
           (dir t \<noteq> 0 \<and> aep t * e_qty t = 0) \<or> x_qty t + f = 0"
  using assms
  by (auto simp: exit_prices_def py_div_def)

lemma exit_prices_error:
  "exit_prices d f t = Inl (err, t') \<Longrightarrow> err = ZeroDivisionError"
  by (auto simp: exit_prices_def py_div_def split: option.splits if_splits)

lemma raised_traded_exit:
  assumes "pos_val (t_avg_price d) = None" "pos_val (t_exec_price d) = Some p"
  shows "raised (traded_exit d t) = Some ZeroDivisionError \<longleftrightarrow>
           (dir t \<noteq> 0 \<and> aep t * e_qty t = 0) \<or> x_qty t + fill_qty d (x_qty t) = 0"
proof (cases "exit_prices d (fill_qty d (x_qty t)) t")
  case (Inl r)
  obtain err t' where r: "r = (err, t')" by (cases r)
  with Inl have e: "err = ZeroDivisionError" using exit_prices_error by blast
  have "raised (traded_exit d t) = Some ZeroDivisionError"
    using Inl r e by (simp add: traded_exit_def raised_def Let_def)
  moreover have "(dir t \<noteq> 0 \<and> aep t * e_qty t = 0) \<or> x_qty t + fill_qty d (x_qty t) = 0"
    using raised_exit_prices [OF assms, of "fill_qty d (x_qty t)" t] Inl r e by blast
  ultimately show ?thesis by simp
next
  case (Inr t1)
  have "raised (traded_exit d t) \<noteq> Some ZeroDivisionError"
    using Inr by (simp add: traded_exit_def raised_def Let_def setattr_not_slot)
  moreover have "\<not> ((dir t \<noteq> 0 \<and> aep t * e_qty t = 0) \<or> x_qty t + fill_qty d (x_qty t) = 0)"
    using raised_exit_prices [OF assms, of "fill_qty d (x_qty t)" t] Inr by simp
  ultimately show ?thesis by simp
qed

subsection \<open>Position deleted with an unfilled exit\<close>

text \<open>
  C1. The claim: on SIGNAL\_POSITION\_DELETED with \<open>x < e\<close>, a positive average entry price
  and a positive execution price, the exit state becomes FILLED, the profit/loss grows by
  \<open>dir \<sqdot> (p \<sqdot> (e - x) - aep \<sqdot> e) / (aep \<sqdot> e)\<close>, and the filled exit quantity equals \<open>e\<close>
  afterwards. The code, at the scenario of the specification (long, \<open>e = 5\<close>, \<open>x = 2\<close>,
  average entry price 100, execution price 120): the exit state is FILLED and the
  profit/loss is \<open>(120 \<sqdot> 3 - 100 \<sqdot> 5) / (100 \<sqdot> 5) = -0.28\<close>, but the filled exit quantity is
  still 2.
\<close>

theorem position_deleted_keeps_exit_qty:
  "position_signal (SIGNAL_POSITION_DELETED \<lparr>p_exec_price = Some 120\<rparr>) None deleted_mid_exit =
     Inr ((), deleted_mid_exit\<lparr>pl := - (28 / 100), exit_state := STATE_FILLED\<rparr>) \<and>
   x_qty (state_after (position_signal (SIGNAL_POSITION_DELETED \<lparr>p_exec_price = Some 120\<rparr>) None
     deleted_mid_exit)) = 2 \<and>
   e_qty (state_after (position_signal (SIGNAL_POSITION_DELETED \<lparr>p_exec_price = Some 120\<rparr>) None
     deleted_mid_exit)) = 5"
  by (simp add: position_signal_def deleted_mid_exit_def init_defs pos_val_def py_div_def
      state_after_def)

subsection \<open>Order ids when a fill completes\<close>

text \<open>
  C2. The claim: a traded event that fills the entry order sets the entry state to FILLED
  and clears \<open>create_oid\<close> and \<open>create_ref_oid\<close>, and likewise for the stop or limit order
  when the exit state becomes FILLED. The code assigns \<^verbatim>\<open>self._create_oid\<close> (and
  \<^verbatim>\<open>self._limit_oid\<close>), which is no slot: the state becomes FILLED, AttributeError is raised
  and the ids stay.
\<close>

theorem filled_keeps_order_ids:
  "order_signal (SIGNAL_ORDER_TRADED full_fill) None opened_entry =
     Inl (AttributeError, opened_entry\<lparr>aep := 100, e_qty := 10, entry_state := STATE_FILLED\<rparr>) \<and>
   create_oid (state_after (order_signal (SIGNAL_ORDER_TRADED full_fill) None opened_entry)) =
     Some ''A'' \<and>
   create_ref_oid (state_after (order_signal (SIGNAL_ORDER_TRADED full_fill) None opened_entry)) =
     Some ''ref-1'' \<and>
   order_signal (SIGNAL_ORDER_TRADED limit_fill) None filled_entry =
     Inl (AttributeError,
       filled_entry\<lparr>axp := 110, x_qty := 10, pl := 1 / 10, exit_state := STATE_FILLED\<rparr>) \<and>
   limit_oid (state_after (order_signal (SIGNAL_ORDER_TRADED limit_fill) None filled_entry)) =
     Some ''L'' \<and>
   limit_ref_oid (state_after (order_signal (SIGNAL_ORDER_TRADED limit_fill) None filled_entry)) =
     Some ''ref-2''"
  by (simp add: order_signal_def traded_entry_def traded_exit_def entry_avg_price_def
      exit_prices_def py_div_def fill_qty_def cumulate_def pos_val_def setattr_not_slot
      state_after_def opened_entry_def filled_entry_def full_fill_def limit_fill_def init_defs)

subsection \<open>Round trip of the persistence\<close>

text \<open>
  C3. The claim: \<open>loads (dumps t)\<close> restores every persisted field of \<open>t\<close>, the trade type
  among them. The code writes the type as a string and reads it back as it is: the asset
  trade of type code 0 comes back with the type \<^verbatim>\<open>'asset'\<close>. For an indivisible-margin trade
  \<^verbatim>\<open>loads\<close> raises TypeError at its call of the base method, and restores nothing.
\<close>

theorem loads_dumps_loses_trade_type:
  "trade_type (init_trade TRADE_ASSET 60) = TypeCode 0 \<and>
   trade_type (snd (loads (dumps (init_trade TRADE_ASSET 60)) (init_trade TRADE_ASSET 60))) =
     TypeName ''asset'' \<and>
   ind_margin_loads (ind_margin_dumps filled_entry) (init_ind_margin_trade 60) =
     Inl (TypeError, init_ind_margin_trade 60)"
  by (simp add: loads_def dumps_def init_defs trade_type_to_str_def TRADE_ASSET_def
      TRADE_MARGIN_def get_default_def ind_margin_loads_def call_loads_def loads_parameters_def)

subsection \<open>Closed trades\<close>

text \<open>
  C6. The claim: \<open>is_closed\<close> holds if and only if both states are FILLED, or \<open>e > 0\<close> and
  \<open>x \<ge> e\<close>. It fails on a trade with both states FILLED and \<open>x < e\<close>.
\<close>

theorem is_closed_counterexample:
  "\<not> (is_closed (deleted_mid_exit\<lparr>exit_state := STATE_FILLED\<rparr>) \<longleftrightarrow>
      (entry_state (deleted_mid_exit\<lparr>exit_state := STATE_FILLED\<rparr>) = STATE_FILLED \<and>
       exit_state (deleted_mid_exit\<lparr>exit_state := STATE_FILLED\<rparr>) = STATE_FILLED) \<or>
      (e_qty (deleted_mid_exit\<lparr>exit_state := STATE_FILLED\<rparr>) > 0 \<and>
       x_qty (deleted_mid_exit\<lparr>exit_state := STATE_FILLED\<rparr>) \<ge>
         e_qty (deleted_mid_exit\<lparr>exit_state := STATE_FILLED\<rparr>)))"
  by (simp add: is_closed_def deleted_mid_exit_def init_defs)

text \<open>
  C6, amended. \<open>is_closed\<close> holds if and only if the exit state is FILLED and \<open>x \<ge> e\<close>.
\<close>

theorem is_closed_iff:
  "is_closed t \<longleftrightarrow> exit_state t = STATE_FILLED \<and> x_qty t \<ge> e_qty t"
  by (simp add: is_closed_def)

subsection \<open>Entries submitted without a target\<close>

text \<open>
  C7. The claim: a retained entry that lacks a take-profit is submitted with the third
  resistance of the take-profit timeframe as its take-profit, when there are three. The
  code reads that resistance into a local variable only: the entry is submitted with no
  take-profit, while the stop found beside it is assigned to the entry.
\<close>

theorem entry_submitted_without_take_profit:
  "submitted_entries 5000 three_resistances [bare_entry] =
     Inr [\<lparr> c_timestamp = 5000, c_price = 100, c_take_profit = None, c_stop_loss = Some 90,
            c_timeframe = 900 \<rparr>] \<and>
   list_get (last_resistances three_resistances) 2 = Inr 110"
  by (simp add: submitted_entries_def filter_entry_def process_entry_call_def list_get_def
      three_resistances_def bare_entry_def truthy_num_def)

subsection \<open>A refused cancel\<close>

text \<open>
  C8. For every trade with a live limit order (an order id that is neither None nor
  empty), if the trader's \<open>cancel_order\<close> answers false then \<open>modify_take_profit\<close> returns
  False and leaves the whole trade as it was; the same holds for the stop order and
  \<open>modify_stop_loss\<close>.
\<close>

theorem modify_cancel_refused:
  "(limit_oid t = Some i \<and> i \<noteq> [] \<and> \<not> cancel_order trader i \<longrightarrow>
      modify_take_profit trader market_id price t = (False, t)) \<and>
   (stop_oid t = Some i \<and> i \<noteq> [] \<and> \<not> cancel_order trader i \<longrightarrow>
      modify_stop_loss trader market_id price t = (False, t))"
  by (simp add: modify_take_profit_def modify_stop_loss_def)

theorem modify_cancel_refused_witness:
  "limit_oid filled_entry = Some ''L'' \<and> ''L'' \<noteq> [] \<and> \<not> cancel_order refusing_trader ''L'' \<and>
   modify_take_profit refusing_trader ''BTCUSD'' 120 filled_entry = (False, filled_entry) \<and>
   stop_oid (filled_entry\<lparr>stop_oid := Some ''L''\<rparr>) = Some ''L'' \<and>
   modify_stop_loss refusing_trader ''BTCUSD'' 80 (filled_entry\<lparr>stop_oid := Some ''L''\<rparr>) =
     (False, filled_entry\<lparr>stop_oid := Some ''L''\<rparr>)"
proof -
  have l: "limit_oid filled_entry = Some ''L'' \<and> ''L'' \<noteq> [] \<and>
      \<not> cancel_order refusing_trader ''L''"
    by (simp add: filled_entry_def refusing_trader_def)
  have s: "stop_oid (filled_entry\<lparr>stop_oid := Some ''L''\<rparr>) = Some ''L''"
    by simp
  show ?thesis
    using l s
      modify_cancel_refused [of filled_entry "''L''" refusing_trader "''BTCUSD''" 120]
      modify_cancel_refused [of "filled_entry\<lparr>stop_oid := Some ''L''\<rparr>" "''L''" refusing_trader
        "''BTCUSD''" 80]
    by simp
qed

subsection \<open>Entry timeout\<close>

text \<open>
  C9. The claim: \<open>is_entry_timeout\<close> holds if and only if the entry state is OPENED,
  \<open>e = 0\<close> and \<open>timestamp - eot \<ge> timeout\<close>. It fails on an opened, unfilled trade whose
  \<open>eot\<close> is still 0.
\<close>

theorem is_entry_timeout_counterexample:
  "\<not> (is_entry_timeout 100 10 ((init_ind_margin_trade 60)\<lparr>entry_state := STATE_OPENED\<rparr>) \<longleftrightarrow>
      entry_state ((init_ind_margin_trade 60)\<lparr>entry_state := STATE_OPENED\<rparr>) = STATE_OPENED \<and>
      e_qty ((init_ind_margin_trade 60)\<lparr>entry_state := STATE_OPENED\<rparr>) = 0 \<and>
      100 - eot ((init_ind_margin_trade 60)\<lparr>entry_state := STATE_OPENED\<rparr>) \<ge> 10)"
  by (simp add: is_entry_timeout_def init_defs)

text \<open>
  C9, amended. \<open>is_entry_timeout\<close> holds if and only if the entry state is OPENED,
  \<open>e = 0\<close>, \<open>eot > 0\<close> and \<open>timestamp - eot \<ge> timeout\<close>.
\<close>

theorem is_entry_timeout_iff:
  "is_entry_timeout timestamp timeout t \<longleftrightarrow>
     entry_state t = STATE_OPENED \<and> e_qty t = 0 \<and> eot t > 0 \<and> timestamp - eot t \<ge> timeout"
  by (simp add: is_entry_timeout_def)

subsection \<open>Zero divisors in the fill accounting\<close>

text \<open>
  C10. For a traded event with a positive execution price and no positive average price:
  on the entry order, with \<open>e = 0\<close> and neither a positive cumulative quantity nor a
  positive filled quantity, \<open>order_signal\<close> raises ZeroDivisionError (before any
  assignment); on the entry order it raises ZeroDivisionError exactly when
  \<open>e + filled = 0\<close>; on the limit or stop order it raises ZeroDivisionError exactly when the
  trade has a direction and \<open>aep \<sqdot> e = 0\<close>, or \<open>x + filled = 0\<close>. So no division fails when
  the divisors are positive.
\<close>

theorem order_signal_zero_division:
  assumes "pos_val (t_avg_price d) = None" and "pos_val (t_exec_price d) = Some p"
  shows "(create_oid t = Some (t_id d) \<and> e_qty t = 0 \<and>
            pos_val (t_cumulative_filled d) = None \<and> pos_val (t_filled d) = None \<longrightarrow>
          order_signal (SIGNAL_ORDER_TRADED d) r t = Inl (ZeroDivisionError, t)) \<and>
         (create_oid t = Some (t_id d) \<longrightarrow>
          (raised (order_signal (SIGNAL_ORDER_TRADED d) r t) = Some ZeroDivisionError \<longleftrightarrow>
             e_qty t + fill_qty d (e_qty t) = 0)) \<and>
         (create_oid t \<noteq> Some (t_id d) \<and> (limit_oid t = Some (t_id d) \<or> stop_oid t = Some (t_id d)) \<longrightarrow>
          (raised (order_signal (SIGNAL_ORDER_TRADED d) r t) = Some ZeroDivisionError \<longleftrightarrow>
             (dir t \<noteq> 0 \<and> aep t * e_qty t = 0) \<or> x_qty t + fill_qty d (x_qty t) = 0))"
proof (intro conjI impI)
  assume a: "create_oid t = Some (t_id d) \<and> e_qty t = 0 \<and>
            pos_val (t_cumulative_filled d) = None \<and> pos_val (t_filled d) = None"
  then show "order_signal (SIGNAL_ORDER_TRADED d) r t = Inl (ZeroDivisionError, t)"
    using assms
    by (simp add: order_signal_def traded_entry_def entry_avg_price_def fill_qty_def py_div_def)
next
  assume "create_oid t = Some (t_id d)"
  then show "raised (order_signal (SIGNAL_ORDER_TRADED d) r t) = Some ZeroDivisionError \<longleftrightarrow>
             e_qty t + fill_qty d (e_qty t) = 0"
    using raised_traded_entry [OF assms, of t] by (simp add: order_signal_def)
next
  assume a: "create_oid t \<noteq> Some (t_id d) \<and> (limit_oid t = Some (t_id d) \<or> stop_oid t = Some (t_id d))"
  have c1: "Some (t_id d) \<noteq> create_oid t"
    using a by (cases "create_oid t") auto
  have c2: "Some (t_id d) = limit_oid t \<or> Some (t_id d) = stop_oid t"
    using a by (cases "limit_oid t"; cases "stop_oid t") auto
  have "order_signal (SIGNAL_ORDER_TRADED d) r t = traded_exit d t"
    using c1 c2 by (simp only: order_signal_def order_event.case if_True if_False)
  then show "raised (order_signal (SIGNAL_ORDER_TRADED d) r t) = Some ZeroDivisionError \<longleftrightarrow>
             (dir t \<noteq> 0 \<and> aep t * e_qty t = 0) \<or> x_qty t + fill_qty d (x_qty t) = 0"
    using raised_traded_exit [OF assms, of t] by (simp only:)
qed


theorem order_signal_zero_division_witness:
  "pos_val (t_avg_price priced_only) = None \<and> pos_val (t_exec_price priced_only) = Some 100 \<and>
   create_oid opened_entry = Some (t_id priced_only) \<and> e_qty opened_entry = 0 \<and>
   pos_val (t_cumulative_filled priced_only) = None \<and> pos_val (t_filled priced_only) = None \<and>
   order_signal (SIGNAL_ORDER_TRADED priced_only) None opened_entry =
     Inl (ZeroDivisionError, opened_entry) \<and>
   raised (order_signal (SIGNAL_ORDER_TRADED priced_only) None opened_entry) =
     Some ZeroDivisionError \<and>
   pos_val (t_avg_price priced_exit) = None \<and> pos_val (t_exec_price priced_exit) = Some 110 \<and>
   create_oid filled_entry \<noteq> Some (t_id priced_exit) \<and>
   limit_oid filled_entry = Some (t_id priced_exit) \<and>
   x_qty filled_entry + fill_qty priced_exit (x_qty filled_entry) = 0 \<and>
   raised (order_signal (SIGNAL_ORDER_TRADED priced_exit) None filled_entry) =
     Some ZeroDivisionError"
proof -
  have a1: "pos_val (t_avg_price priced_only) = None"
    and a2: "pos_val (t_exec_price priced_only) = Some 100"
    by (simp_all add: priced_only_def pos_val_def)
  have b1: "pos_val (t_avg_price priced_exit) = None"
    and b2: "pos_val (t_exec_price priced_exit) = Some 110"
    by (simp_all add: priced_exit_def pos_val_def)
  have c: "create_oid opened_entry = Some (t_id priced_only) \<and> e_qty opened_entry = 0 \<and>
      pos_val (t_cumulative_filled priced_only) = None \<and> pos_val (t_filled priced_only) = None \<and>
      e_qty opened_entry + fill_qty priced_only (e_qty opened_entry) = 0"
    by (simp add: opened_entry_def priced_only_def init_defs pos_val_def fill_qty_def)
  have d: "create_oid filled_entry \<noteq> Some (t_id priced_exit) \<and>
      limit_oid filled_entry = Some (t_id priced_exit) \<and>
      x_qty filled_entry + fill_qty priced_exit (x_qty filled_entry) = 0"
    by (simp add: filled_entry_def opened_entry_def priced_exit_def init_defs pos_val_def
        fill_qty_def)
  show ?thesis
    using a1 a2 b1 b2 c d
      order_signal_zero_division [OF a1 a2, of opened_entry None]
      order_signal_zero_division [OF b1 b2, of filled_entry None]
    by (simp add: raised_def)
qed

end
